theory Spec2Isabelle
  imports Main "HOL-Library.Word"
begin

section \<open>The objects onnxToTrtCtx works on\<close>

text \<open>
  The embedding follows \<^verbatim>\<open>src/operator/subgraph/tensorrt/onnx_to_tensorrt.cc\<close>.
  TensorRT, the ONNX parser and protobuf are libraries outside the repository: their
  objects are records of the state the function sets and reads, and their answers
  (does the buffer deserialize, does the backend accept it, what does the platform
  support, does a compile yield an engine) are the fields of an environment record.
\<close>

text \<open>\<^verbatim>\<open>nvinfer1::ILogger::Severity\<close> with the numeric values that \<^verbatim>\<open>static_cast<int>\<close> reads.\<close>

datatype Severity = kINTERNAL_ERROR | kERROR | kWARNING | kINFO | kVERBOSE

fun Severity_int :: "Severity \<Rightarrow> int" where
  "Severity_int kINTERNAL_ERROR = 0"
| "Severity_int kERROR = 1"
| "Severity_int kWARNING = 2"
| "Severity_int kINFO = 3"
| "Severity_int kVERBOSE = 4"

text \<open>The three \<^verbatim>\<open>nvinfer1::BuilderFlag\<close> values the function sets.\<close>

datatype BuilderFlag = kFP16 | kINT8 | kDEBUG

text \<open>
  The protobuf messages, with the fields the report loop reads. \<open>DebugString\<close> is the
  text protobuf renders for the node; it is taken as given.
\<close>

record NodeProto =
  op_type :: string
  outputs :: "string list"
  DebugString :: string

record GraphProto =
  node :: "NodeProto list"

record ModelProto =
  graph :: GraphProto

text \<open>
  \<^verbatim>\<open>nvonnxparser::IParserError\<close>: \<open>err_node\<close> is \<^verbatim>\<open>error->node()\<close> (\<open>-1\<close> when the backend
  attributes the error to no node), \<open>err_code\<close> is \<^verbatim>\<open>static_cast<int>(error->code())\<close>.
\<close>

record IParserError =
  err_node :: int
  err_file :: string
  err_line :: int
  err_func :: string
  err_code :: int
  err_desc :: string

text \<open>Opaque backend objects: the populated network and a compiled engine.\<close>

datatype INetworkDefinition = INetworkDefinition nat

datatype ICudaEngine = ICudaEngine nat

datatype TRT_Logger = TRT_Logger Severity

datatype IParser = IParser TRT_Logger

text \<open>
  The caller's calibrator. \<open>isCacheEmpty\<close> is what \<^verbatim>\<open>calibrator->isCacheEmpty()\<close> answers
  when the function asks (after the primary compile). A null pointer is \<open>None\<close>.
\<close>

record TRTInt8Calibrator =
  isCacheEmpty :: bool

text \<open>
  \<^verbatim>\<open>nvinfer1::IBuilder\<close>: the batch-size ceiling, and the settings the TensorRT 6 interface
  keeps on the builder itself.
\<close>

record IBuilder =
  maxBatchSize :: "32 word"
  fp16Mode :: bool
  int8Mode :: bool
  debugSync :: bool
  maxWorkspaceSize :: "64 word"
  int8Calibrator :: "TRTInt8Calibrator option"

text \<open>\<^verbatim>\<open>nvinfer1::IBuilderConfig\<close> (TensorRT 7 and later).\<close>

record IBuilderConfig =
  flags :: "BuilderFlag set"
  cfg_maxWorkspaceSize :: "64 word"
  cfg_int8Calibrator :: "TRTInt8Calibrator option"

text \<open>
  A fresh builder and a fresh configuration, as \<^verbatim>\<open>createInferBuilder\<close> and
  \<^verbatim>\<open>createBuilderConfig\<close> hand them out: no precision or debug flag, no calibrator.
  The function overwrites the batch size and the workspace size unconditionally, so
  their initial values are never read.
\<close>

definition createInferBuilder :: IBuilder where
  "createInferBuilder =
     \<lparr>maxBatchSize = 0, fp16Mode = False, int8Mode = False, debugSync = False,
      maxWorkspaceSize = 0, int8Calibrator = None\<rparr>"

definition createBuilderConfig :: IBuilderConfig where
  "createBuilderConfig =
     \<lparr>flags = {}, cfg_maxWorkspaceSize = 0, cfg_int8Calibrator = None\<rparr>"

text \<open>
  The closure handed to \<^verbatim>\<open>std::async\<close>: the builder, the network and (TensorRT 7) the
  configuration, moved into it.
\<close>

record async_task =
  task_builder :: IBuilder
  task_network :: INetworkDefinition
  task_config :: "IBuilderConfig option"

text \<open>
  What the libraries answer. \<open>NV_TENSORRT_MAJOR\<close> is the macro that selects the branch
  at compile time. \<open>ParseFromString\<close> is protobuf's deserialization (\<open>None\<close> when it
  returns false). \<open>parse\<close> is the backend parser on the same bytes: the populated network,
  or the error records \<^verbatim>\<open>getNbErrors\<close>/\<^verbatim>\<open>getError\<close> give. The two compile entry points
  return \<open>None\<close> for a null engine pointer.
\<close>

record env =
  NV_TENSORRT_MAJOR :: nat
  ParseFromString :: "string \<Rightarrow> ModelProto option"
  parse :: "string \<Rightarrow> IParserError list + INetworkDefinition"
  platformHasFastFp16 :: bool
  platformHasFastInt8 :: bool
  buildEngineWithConfig :: "IBuilder \<Rightarrow> INetworkDefinition \<Rightarrow> IBuilderConfig \<Rightarrow> ICudaEngine option"
  buildCudaEngine :: "IBuilder \<Rightarrow> INetworkDefinition \<Rightarrow> ICudaEngine option"

section \<open>Effects and failures\<close>

text \<open>
  Everything the function does to the outside, in program order: text written to
  \<^verbatim>\<open>cerr\<close>, \<^verbatim>\<open>LOG(WARNING)\<close> lines, and the calls on the libraries and on the calibrator.
  A compile call carries the builder, network and configuration it was given.
\<close>

datatype event =
    Call_ParseFromString
  | Call_parse
  | Cerr string
  | Log_WARNING string
  | Call_setMaxBatchSize "32 word"
  | Call_setFlag BuilderFlag
  | Call_setMaxWorkspaceSize "64 word"
  | Call_setInt8Calibrator TRTInt8Calibrator
  | Call_setFp16Mode bool
  | Call_setDebugSync bool
  | Call_setInt8Mode bool
  | Call_buildEngineWithConfig IBuilder INetworkDefinition IBuilderConfig
  | Call_buildCudaEngine IBuilder INetworkDefinition
  | Call_setDone
  | Call_async async_task

text \<open>
  The ways the call ends without returning: a \<^verbatim>\<open>dmlc::Error\<close> with its message, a failed
  compile step, and a read of \<^verbatim>\<open>graph().node(i)\<close> or \<^verbatim>\<open>node.output(i)\<close> outside the
  sequence (protobuf does not check the index in a release build, so the program has no
  defined behaviour there).
\<close>

datatype exn =
    dmlc_Error string
  | EngineBuildFailed
  | node_index_out_of_range int
  | output_index_out_of_range int

definition MalformedModel :: exn where
  "MalformedModel = dmlc_Error ''Could not parse ONNX from string''"

definition GraphCompileError :: exn where
  "GraphCompileError = dmlc_Error ''Cannot parse ONNX into TensorRT Engine''"

text \<open>
  Modelled from the spec: \<^verbatim>\<open>InferObject\<close> is declared in \<^verbatim>\<open>onnx_to_tensorrt.h\<close>, which is not
  among the sources. The spec (4.4, failure conditions) says that a failed compile step
  signals \<open>EngineBuildFailed\<close>, aborts the call and returns no partial engine, and (8)
  that a returned engine handle is non-null. So a null pointer raises, and any other
  pointer is wrapped into the owning handle (\<open>None\<close> would be a null handle).
\<close>

definition InferObject :: "'a option \<Rightarrow> exn + 'a option" where
  "InferObject obj = (case obj of None \<Rightarrow> Inl EngineBuildFailed | Some x \<Rightarrow> Inr (Some x))"

section \<open>Writing numbers to a stream\<close>

definition digit :: "nat \<Rightarrow> char" where
  "digit n = ''0123456789'' ! n"

fun string_of_nat :: "nat \<Rightarrow> string" where
  "string_of_nat n =
     (if n < 10 then [digit n] else string_of_nat (n div 10) @ [digit (n mod 10)])"

definition string_of_int :: "int \<Rightarrow> string" where
  "string_of_int i =
     (if i < 0 then CHR ''-'' # string_of_nat (nat (- i)) else string_of_nat (nat i))"

definition endl :: string where
  "endl = [CHR 0x0A]"

section \<open>The report loop (lines 93 to 117)\<close>

text \<open>
  \<^verbatim>\<open>parsed_model.graph().node(i)\<close>: the node at index \<open>i\<close> when \<open>i\<close> is an index of the
  sequence; the source makes no check of its own.
\<close>

definition node_at :: "ModelProto \<Rightarrow> int \<Rightarrow> exn + NodeProto" where
  "node_at parsed_model i =
     (if 0 \<le> i \<and> i < int (length (node (graph parsed_model)))
      then Inr (node (graph parsed_model) ! nat i)
      else Inl (node_index_out_of_range i))"

text \<open>Lines 112 to 116: the line every error record gets.\<close>

definition error_line :: "IParserError \<Rightarrow> string" where
  "error_line error =
     ''ERROR: '' @ err_file error @ '':'' @ string_of_int (err_line error)
       @ '' In function '' @ err_func error @ '':'' @ [CHR 0x0A]
       @ ''['' @ string_of_int (err_code error) @ ''] '' @ err_desc error @ endl"

text \<open>\<^verbatim>\<open>node.output(i)\<close>, likewise unchecked in the source.\<close>

definition output_at :: "NodeProto \<Rightarrow> int \<Rightarrow> exn + string" where
  "output_at nd i =
     (if 0 \<le> i \<and> i < int (length (outputs nd))
      then Inr (outputs nd ! nat i)
      else Inl (output_index_out_of_range i))"

text \<open>Lines 99 to 104: the header naming the node.\<close>

definition node_header :: "int \<Rightarrow> NodeProto \<Rightarrow> exn + string" where
  "node_header i nd =
     (let s = ''While parsing node number '' @ string_of_int i @ '' ['' @ op_type nd
      in if outputs nd \<noteq> [] then
           (case output_at nd 0 of
              Inl x \<Rightarrow> Inl x
            | Inr out \<Rightarrow> Inr (s @ '' -> '' @ [CHR 0x22] @ out @ [CHR 0x22] @ '']:'' @ endl))
         else Inr (s @ '']:'' @ endl))"

text \<open>Lines 105 to 110: the dump of the node, at verbosity kINFO and above.\<close>

definition node_dump :: "Severity \<Rightarrow> NodeProto \<Rightarrow> string" where
  "node_dump verbosity nd =
     (if Severity_int verbosity \<ge> Severity_int kINFO
      then ''--- Begin node ---'' @ endl @ DebugString nd @ endl @ ''--- End node ---'' @ endl
      else [])"

text \<open>One iteration of the loop: the text it writes to \<^verbatim>\<open>cerr\<close>, or the failed read.\<close>

definition report_error :: "Severity \<Rightarrow> ModelProto \<Rightarrow> IParserError \<Rightarrow> exn + string" where
  "report_error verbosity parsed_model error =
     (if err_node error \<noteq> - 1 then
        (case node_at parsed_model (err_node error) of
           Inl x \<Rightarrow> Inl x
         | Inr nd \<Rightarrow>
             (case node_header (err_node error) nd of
                Inl x \<Rightarrow> Inl x
              | Inr header \<Rightarrow> Inr (header @ node_dump verbosity nd @ error_line error)))
      else Inr (error_line error))"

text \<open>
  The loop over the records, in order. It returns what was written and, when a read
  failed, the failure that stopped it.
\<close>

fun report_errors :: "Severity \<Rightarrow> ModelProto \<Rightarrow> IParserError list \<Rightarrow> event list \<times> exn option" where
  "report_errors verbosity parsed_model [] = ([], None)"
| "report_errors verbosity parsed_model (error # errors) =
     (case report_error verbosity parsed_model error of
        Inl x \<Rightarrow> ([], Some x)
      | Inr s \<Rightarrow>
          (case report_errors verbosity parsed_model errors of
             (tr, r) \<Rightarrow> (Cerr s # tr, r)))"

section \<open>Configuring and compiling\<close>

definition fp16_warning :: string where
  "fp16_warning = ''TensorRT can't use fp16 on this platform''"

definition int8_warning :: string where
  "int8_warning = ''TensorRT can't use int8 on this platform''"

text \<open>Lines 152 to 162 and 187 to 195: the calibration build, when it is scheduled.\<close>

definition schedule_int8 ::
  "TRTInt8Calibrator option \<Rightarrow> async_task \<Rightarrow> event list \<times> async_task option" where
  "schedule_int8 calibrator task =
     (case calibrator of
        None \<Rightarrow> ([], None)
      | Some c \<Rightarrow> if isCacheEmpty c then ([Call_async task], Some task) else ([], None))"

text \<open>
  Lines 158 to 160 and 192 to 193: the body of the closure, run on the other thread.
  It compiles once more with what was moved into it; its outcome is what the future
  resolves to.
\<close>

definition run_async_task :: "env \<Rightarrow> async_task \<Rightarrow> exn + ICudaEngine option" where
  "run_async_task e t =
     (case task_config t of
        Some builder_config \<Rightarrow>
          InferObject (buildEngineWithConfig e (task_builder t) (task_network t) builder_config)
      | None \<Rightarrow> InferObject (buildCudaEngine e (task_builder t) (task_network t)))"

text \<open>
  Lines 123 to 162, compiled when \<^verbatim>\<open>NV_TENSORRT_MAJOR > 6\<close>. The result is the primary
  engine and the future.
\<close>

definition build_with_config ::
  "env \<Rightarrow> IBuilder \<Rightarrow> INetworkDefinition \<Rightarrow> bool \<Rightarrow> 64 word \<Rightarrow> TRTInt8Calibrator option \<Rightarrow> bool
     \<Rightarrow> event list \<times> (exn + ICudaEngine option \<times> async_task option)" where
  "build_with_config e trt_builder trt_network fp16_mode max_workspace_size calibrator debug_builder =
     (let builder_config = createBuilderConfig;
          (tr_fp16, builder_config) =
            (if fp16_mode then
               (if platformHasFastFp16 e
                then ([Call_setFlag kFP16],
                      builder_config\<lparr>flags := insert kFP16 (flags builder_config)\<rparr>)
                else ([Log_WARNING fp16_warning], builder_config))
             else ([], builder_config));
          builder_config = builder_config\<lparr>cfg_maxWorkspaceSize := max_workspace_size\<rparr>;
          (tr_debug, builder_config) =
            (if debug_builder
             then ([Call_setFlag kDEBUG],
                   builder_config\<lparr>flags := insert kDEBUG (flags builder_config)\<rparr>)
             else ([], builder_config));
          tr = tr_fp16 @ [Call_setMaxWorkspaceSize max_workspace_size] @ tr_debug
                 @ [Call_buildEngineWithConfig trt_builder trt_network builder_config]
      in case InferObject (buildEngineWithConfig e trt_builder trt_network builder_config) of
           Inl x \<Rightarrow> (tr, Inl x)
         | Inr trt_engine \<Rightarrow>
             (let (tr_int8, builder_config, calibrator) =
                    (case calibrator of
                       None \<Rightarrow> ([], builder_config, None)
                     | Some c \<Rightarrow>
                         if platformHasFastInt8 e
                         then ([Call_setFlag kINT8, Call_setInt8Calibrator c],
                               builder_config\<lparr>flags := insert kINT8 (flags builder_config),
                                               cfg_int8Calibrator := Some c\<rparr>,
                               Some c)
                         else ([Log_WARNING int8_warning, Call_setDone], builder_config, None));
                  (tr_async, future_int8_engine) =
                    schedule_int8 calibrator
                      \<lparr>task_builder = trt_builder, task_network = trt_network,
                       task_config = Some builder_config\<rparr>
              in (tr @ tr_int8 @ tr_async, Inr (trt_engine, future_int8_engine))))"

text \<open>Lines 164 to 195, compiled otherwise (the TensorRT 6 interface).\<close>

definition build_legacy ::
  "env \<Rightarrow> IBuilder \<Rightarrow> INetworkDefinition \<Rightarrow> bool \<Rightarrow> 64 word \<Rightarrow> TRTInt8Calibrator option \<Rightarrow> bool
     \<Rightarrow> event list \<times> (exn + ICudaEngine option \<times> async_task option)" where
  "build_legacy e trt_builder trt_network fp16_mode max_workspace_size calibrator debug_builder =
     (let (tr_fp16, trt_builder) =
            (if fp16_mode then
               (if platformHasFastFp16 e
                then ([Call_setFp16Mode True], trt_builder\<lparr>fp16Mode := True\<rparr>)
                else ([Log_WARNING fp16_warning], trt_builder))
             else ([], trt_builder));
          trt_builder = trt_builder\<lparr>maxWorkspaceSize := max_workspace_size\<rparr>;
          trt_builder = trt_builder\<lparr>debugSync := debug_builder\<rparr>;
          (tr_int8, trt_builder, calibrator) =
            (case calibrator of
               None \<Rightarrow> ([], trt_builder, None)
             | Some c \<Rightarrow>
                 if platformHasFastInt8 e
                 then ([Call_setInt8Mode True, Call_setInt8Calibrator c],
                       trt_builder\<lparr>int8Mode := True, int8Calibrator := Some c\<rparr>,
                       Some c)
                 else ([Log_WARNING int8_warning, Call_setDone], trt_builder, None));
          tr = tr_fp16 @ [Call_setMaxWorkspaceSize max_workspace_size, Call_setDebugSync debug_builder]
                 @ tr_int8 @ [Call_buildCudaEngine trt_builder trt_network]
      in case InferObject (buildCudaEngine e trt_builder trt_network) of
           Inl x \<Rightarrow> (tr, Inl x)
         | Inr trt_engine \<Rightarrow>
             (let (tr_async, future_int8_engine) =
                    schedule_int8 calibrator
                      \<lparr>task_builder = trt_builder, task_network = trt_network,
                       task_config = None\<rparr>
              in (tr @ tr_async, Inr (trt_engine, future_int8_engine))))"

text \<open>What the call returns: the tuple of line 197, under the names of its locals.\<close>

record ret =
  trt_engine :: "ICudaEngine option"
  trt_parser :: IParser
  trt_logger :: TRT_Logger
  future_int8_engine :: "async_task option"

text \<open>
  \<^verbatim>\<open>onnxToTrtCtx\<close>, lines 67 to 199. The logger, builder, network and parser objects of
  lines 80 to 85 come from the injected backend context and are taken to exist. The
  result pairs the effects, in order, with the returned tuple or the failure.
\<close>

definition onnxToTrtCtx ::
  "env \<Rightarrow> string \<Rightarrow> bool \<Rightarrow> 32 word \<Rightarrow> 64 word \<Rightarrow> TRTInt8Calibrator option \<Rightarrow> Severity \<Rightarrow> bool
     \<Rightarrow> event list \<times> (exn + ret)" where
  "onnxToTrtCtx e onnx_model fp16_mode max_batch_size max_workspace_size calibrator verbosity
       debug_builder =
     (let logger = TRT_Logger verbosity;
          trt_builder = createInferBuilder;
          parser = IParser logger
      in case ParseFromString e onnx_model of
           None \<Rightarrow> ([Call_ParseFromString], Inl (dmlc_Error ''Could not parse ONNX from string''))
         | Some parsed_model \<Rightarrow>
             (case parse e onnx_model of
                Inl errors \<Rightarrow>
                  (case report_errors verbosity parsed_model errors of
                     (tr, r) \<Rightarrow>
                       ([Call_ParseFromString, Call_parse] @ tr,
                        Inl (case r of
                               Some x \<Rightarrow> x
                             | None \<Rightarrow> dmlc_Error ''Cannot parse ONNX into TensorRT Engine'')))
              | Inr trt_network \<Rightarrow>
                  (let trt_builder = trt_builder\<lparr>maxBatchSize := max_batch_size\<rparr>;
                       (tr, r) =
                         (if NV_TENSORRT_MAJOR e > 6
                          then build_with_config e trt_builder trt_network fp16_mode
                                 max_workspace_size calibrator debug_builder
                          else build_legacy e trt_builder trt_network fp16_mode
                                 max_workspace_size calibrator debug_builder)
                   in ([Call_ParseFromString, Call_parse, Call_setMaxBatchSize max_batch_size] @ tr,
                       case r of
                         Inl x \<Rightarrow> Inl x
                       | Inr (engine, fut) \<Rightarrow>
                           Inr \<lparr>trt_engine = engine, trt_parser = parser, trt_logger = logger,
                                future_int8_engine = fut\<rparr>))))"

section \<open>Reading the effects\<close>

text \<open>The compile calls and the scheduling of the calibration build among the effects.\<close>

fun is_build :: "event \<Rightarrow> bool" where
  "is_build (Call_buildEngineWithConfig b n c) = True"
| "is_build (Call_buildCudaEngine b n) = True"
| "is_build ev = False"

fun is_async :: "event \<Rightarrow> bool" where
  "is_async (Call_async t) = True"
| "is_async ev = False"

text \<open>
  Whether a compile call was given a configuration with int8 enabled, and with half
  precision enabled: the flag of the configuration (TensorRT 7), the mode of the builder
  (TensorRT 6).
\<close>

fun build_int8 :: "event \<Rightarrow> bool" where
  "build_int8 (Call_buildEngineWithConfig b n c) = (kINT8 \<in> flags c)"
| "build_int8 (Call_buildCudaEngine b n) = int8Mode b"
| "build_int8 ev = False"

fun build_fp16 :: "event \<Rightarrow> bool" where
  "build_fp16 (Call_buildEngineWithConfig b n c) = (kFP16 \<in> flags c)"
| "build_fp16 (Call_buildCudaEngine b n) = fp16Mode b"
| "build_fp16 ev = False"

text \<open>The primary compile is the first compile call of the trace.\<close>

definition primary_build :: "event list \<Rightarrow> event option" where
  "primary_build tr = find is_build tr"

text \<open>The text written to \<^verbatim>\<open>cerr\<close>, in order.\<close>

fun cerr_text :: "event list \<Rightarrow> string" where
  "cerr_text [] = []"
| "cerr_text (Cerr s # tr) = s @ cerr_text tr"
| "cerr_text (ev # tr) = cerr_text tr"

text \<open>
  The \<^verbatim>\<open>LOG(WARNING)\<close> lines, in order.
\<close>

fun warnings_of :: "event list \<Rightarrow> string list" where
  "warnings_of [] = []"
| "warnings_of (Log_WARNING w # tr) = w # warnings_of tr"
| "warnings_of (ev # tr) = warnings_of tr"

text \<open>
  A compile call that has to run the calibration loop, which blocks the calling thread
  (comment at lines 156 to 157 and 190 to 191; specification 4.4, step 7): int8 is
  enabled and the calibrator attached has no cache. A cache that is empty when the
  function asks afterwards was empty when the compile ran.
\<close>

definition runs_calibration :: "event \<Rightarrow> bool" where
  "runs_calibration ev =
     (case ev of
        Call_buildEngineWithConfig b n c \<Rightarrow>
          kINT8 \<in> flags c
          \<and> (case cfg_int8Calibrator c of Some cal \<Rightarrow> isCacheEmpty cal | None \<Rightarrow> False)
      | Call_buildCudaEngine b n \<Rightarrow>
          int8Mode b
          \<and> (case int8Calibrator b of Some cal \<Rightarrow> isCacheEmpty cal | None \<Rightarrow> False)
      | _ \<Rightarrow> False)"

section \<open>The diagnostic in the words of the specification\<close>

text \<open>
  Section 4.1 of the specification, for one error record: the node index (if known) with
  the node's operator type and first output name; at verbosity informational or above,
  the dump of that node; then the record's file, line, function, numeric code and
  description. The layout of the text is the one of the stream insertions.
\<close>

definition spec_diagnostic :: "Severity \<Rightarrow> ModelProto \<Rightarrow> IParserError \<Rightarrow> string" where
  "spec_diagnostic verbosity parsed_model error =
     (if err_node error = - 1 then []
      else
        (let nd = node (graph parsed_model) ! nat (err_node error)
         in ''While parsing node number '' @ string_of_int (err_node error)
              @ '' ['' @ op_type nd
              @ (case outputs nd of
                   [] \<Rightarrow> []
                 | out # rest \<Rightarrow> '' -> '' @ [CHR 0x22] @ out @ [CHR 0x22])
              @ '']:'' @ [CHR 0x0A]
              @ (if verbosity = kINFO \<or> verbosity = kVERBOSE
                 then ''--- Begin node ---'' @ [CHR 0x0A] @ DebugString nd @ [CHR 0x0A]
                        @ ''--- End node ---'' @ [CHR 0x0A]
                 else [])))
     @ ''ERROR: '' @ err_file error @ '':'' @ string_of_int (err_line error)
     @ '' In function '' @ err_func error @ '':'' @ [CHR 0x0A]
     @ ''['' @ string_of_int (err_code error) @ ''] '' @ err_desc error @ [CHR 0x0A]"

section \<open>Concrete inputs\<close>

text \<open>A model of one node that has no outputs, and an error record of the backend.\<close>

definition example_node :: NodeProto where
  "example_node = \<lparr>op_type = ''Foo'', outputs = [], DebugString = ''op_type: Foo''\<rparr>"

definition example_model :: ModelProto where
  "example_model = \<lparr>graph = \<lparr>node = [example_node]\<rparr>\<rparr>"

definition example_error :: "int \<Rightarrow> IParserError" where
  "example_error i =
     \<lparr>err_node = i, err_file = ''ModelImporter.cpp'', err_line = 124,
      err_func = ''importNode'', err_code = 8, err_desc = ''No importer registered for op: Foo''\<rparr>"

text \<open>
  Environments: one where every buffer deserializes to \<open>example_model\<close>, the backend
  accepts it and every compile yields an engine; one where the backend rejects it with
  given error records; one where no buffer deserializes.
\<close>

definition accepting_env :: "nat \<Rightarrow> bool \<Rightarrow> bool \<Rightarrow> env" where
  "accepting_env major has_fp16 has_int8 =
     \<lparr>NV_TENSORRT_MAJOR = major,
      ParseFromString = (\<lambda>bytes. Some example_model),
      parse = (\<lambda>bytes. Inr (INetworkDefinition 0)),
      platformHasFastFp16 = has_fp16,
      platformHasFastInt8 = has_int8,
      buildEngineWithConfig = (\<lambda>b n c. Some (ICudaEngine 1)),
      buildCudaEngine = (\<lambda>b n. Some (ICudaEngine 1))\<rparr>"

definition rejecting_env :: "IParserError list \<Rightarrow> env" where
  "rejecting_env errors = (accepting_env 7 True True)\<lparr>parse := (\<lambda>bytes. Inl errors)\<rparr>"

definition garbage_env :: env where
  "garbage_env = (accepting_env 7 True True)\<lparr>ParseFromString := (\<lambda>bytes. None)\<rparr>"

text \<open>
  An environment like \<open>accepting_env\<close> in which every compile returns a null
  pointer.
\<close>

definition failing_compile_env :: "nat \<Rightarrow> bool \<Rightarrow> bool \<Rightarrow> env" where
  "failing_compile_env major has_fp16 has_int8 =
     (accepting_env major has_fp16 has_int8)
       \<lparr>buildEngineWithConfig := (\<lambda>b n c. None), buildCudaEngine := (\<lambda>b n. None)\<rparr>"

section \<open>Unfolding\<close>

lemmas build_defs = onnxToTrtCtx_def build_with_config_def build_legacy_def schedule_int8_def
  InferObject_def Let_def

lemmas example_defs = accepting_env_def rejecting_env_def garbage_env_def example_model_def
  example_node_def example_error_def

section \<open>Facts about the report loop\<close>

text \<open>
  With the guard on the output list the header never fails; the loop body agrees with
  the specification's diagnostic on every record whose node index is \<open>-1\<close> or in range.
\<close>

lemma node_header_eq:
  "node_header i nd =
     Inr (''While parsing node number '' @ string_of_int i @ '' ['' @ op_type nd
          @ (case outputs nd of [] \<Rightarrow> [] | out # rest \<Rightarrow> '' -> '' @ [CHR 0x22] @ out @ [CHR 0x22])
          @ '']:'' @ [CHR 0x0A])"
  by (cases "outputs nd") (simp_all add: node_header_def output_at_def Let_def endl_def)

lemma node_dump_eq:
  "node_dump verbosity nd =
     (if verbosity = kINFO \<or> verbosity = kVERBOSE
      then ''--- Begin node ---'' @ [CHR 0x0A] @ DebugString nd @ [CHR 0x0A]
             @ ''--- End node ---'' @ [CHR 0x0A]
      else [])"
  by (cases verbosity) (simp_all add: node_dump_def endl_def)

lemma report_error_eq:
  assumes "err_node error = - 1
           \<or> (0 \<le> err_node error \<and> err_node error < int (length (node (graph parsed_model))))"
  shows "report_error verbosity parsed_model error
           = Inr (spec_diagnostic verbosity parsed_model error)"
proof (cases "err_node error = - 1")
  case True
  then show ?thesis
    by (simp add: report_error_def spec_diagnostic_def error_line_def endl_def)
next
  case False
  with assms have "node_at parsed_model (err_node error)
                     = Inr (node (graph parsed_model) ! nat (err_node error))"
    by (simp add: node_at_def)
  with False show ?thesis
    by (simp add: report_error_def spec_diagnostic_def error_line_def endl_def
        node_header_eq node_dump_eq Let_def)
qed

lemma report_errors_eq:
  assumes "\<forall>error \<in> set errors. err_node error = - 1
             \<or> (0 \<le> err_node error \<and> err_node error < int (length (node (graph parsed_model))))"
  shows "report_errors verbosity parsed_model errors
           = (map (\<lambda>error. Cerr (spec_diagnostic verbosity parsed_model error)) errors, None)"
  using assms by (induction errors) (simp_all add: report_error_eq)

lemma report_errors_append:
  assumes "\<forall>error \<in> set pre. err_node error = - 1
             \<or> (0 \<le> err_node error \<and> err_node error < int (length (node (graph parsed_model))))"
  shows "report_errors verbosity parsed_model (pre @ rest)
           = (map (\<lambda>error. Cerr (spec_diagnostic verbosity parsed_model error)) pre
                @ fst (report_errors verbosity parsed_model rest),
              snd (report_errors verbosity parsed_model rest))"
  using assms
  by (induction pre) (simp_all add: report_error_eq split: prod.splits)

lemma report_errors_only_cerr:
  "report_errors verbosity parsed_model errors = (tr, r) \<Longrightarrow> \<forall>ev \<in> set tr. \<exists>s. ev = Cerr s"
  by (induction errors arbitrary: tr r) (auto split: sum.splits prod.splits)

section \<open>Facts about the build\<close>

lemma warnings_differ: "fp16_warning \<noteq> int8_warning"
  by (simp add: fp16_warning_def int8_warning_def)

text \<open>
  The call returns whenever the buffer deserializes, the backend accepts it and the
  backend compiles the network under every configuration.
\<close>

lemma onnxToTrtCtx_returns:
  assumes "ParseFromString e onnx_model = Some parsed_model"
    and "parse e onnx_model = Inr trt_network"
    and c7: "\<And>b c. buildEngineWithConfig e b trt_network c \<noteq> None"
    and c6: "\<And>b. buildCudaEngine e b trt_network \<noteq> None"
  shows "\<exists>r. snd (onnxToTrtCtx e onnx_model fp16_mode max_batch_size max_workspace_size
                  calibrator verbosity debug_builder) = Inr r"
  using assms(1,2)
  by (simp add: build_defs c7 c6 split: option.splits sum.splits prod.splits)

lemma accepting_env_returns:
  "\<exists>r. snd (onnxToTrtCtx (accepting_env major has_fp16 has_int8) onnx_model fp16_mode
            max_batch_size max_workspace_size calibrator verbosity debug_builder) = Inr r"
  by (rule onnxToTrtCtx_returns [where parsed_model = example_model
        and trt_network = "INetworkDefinition 0"])
    (simp_all add: accepting_env_def)

lemma failing_env_simps:
  "ParseFromString (failing_compile_env major f i) onnx_model = Some example_model"
  "parse (failing_compile_env major f i) onnx_model = Inr (INetworkDefinition 0)"
  "platformHasFastInt8 (failing_compile_env major f i) = i"
  "platformHasFastFp16 (failing_compile_env major f i) = f"
  "NV_TENSORRT_MAJOR (failing_compile_env major f i) = major"
  "buildEngineWithConfig (failing_compile_env major f i) b n c = None"
  "buildCudaEngine (failing_compile_env major f i) b n = None"
  by (simp_all add: failing_compile_env_def accepting_env_def)

lemma accepting_env_simps:
  "ParseFromString (accepting_env major f i) onnx_model = Some example_model"
  "parse (accepting_env major f i) onnx_model = Inr (INetworkDefinition 0)"
  "platformHasFastInt8 (accepting_env major f i) = i"
  "platformHasFastFp16 (accepting_env major f i) = f"
  "NV_TENSORRT_MAJOR (accepting_env major f i) = major"
  "buildEngineWithConfig (accepting_env major f i) b n c = Some (ICudaEngine 1)"
  "buildCudaEngine (accepting_env major f i) b n = Some (ICudaEngine 1)"
  by (simp_all add: accepting_env_def)

text \<open>
  What is scheduled is the last effect of the call, it is scheduled once, and it is the
  future the call returns: nothing touches the builder, the network or the
  configuration after they have been moved into the closure.
\<close>

lemma async_is_last_effect:
  assumes "onnxToTrtCtx e onnx_model fp16_mode max_batch_size max_workspace_size calibrator
             verbosity debug_builder = (tr, res)"
    and "Call_async t \<in> set tr"
  shows "last tr = Call_async t \<and> filter is_async tr = [Call_async t]
         \<and> (\<exists>r. res = Inr r \<and> future_int8_engine r = Some t)"
  using assms
  by (auto simp: build_defs split: option.splits sum.splits if_splits prod.splits
      dest!: report_errors_only_cerr)

text \<open>
  In the \<^verbatim>\<open>NV_TENSORRT_MAJOR > 6\<close> branch no synchronous compile runs the calibration
  loop: the primary compile is made before the calibrator is attached.
\<close>

lemma config_branch_sync_compile_never_calibrates:
  assumes "NV_TENSORRT_MAJOR e > 6"
    and "ParseFromString e onnx_model = Some parsed_model"
    and "parse e onnx_model = Inr trt_network"
    and "onnxToTrtCtx e onnx_model fp16_mode max_batch_size max_workspace_size calibrator
             verbosity debug_builder = (tr, res)"
  shows "filter runs_calibration tr = []"
  using assms
  by (auto simp: build_defs runs_calibration_def createBuilderConfig_def
      split: option.splits sum.splits if_splits prod.splits)

text \<open>
  The closure ends with a second engine or with the failure of its compile.
\<close>

lemma run_async_task_resolves:
  "run_async_task e t = Inl EngineBuildFailed \<or> (\<exists>engine. run_async_task e t = Inr (Some engine))"
  by (simp add: run_async_task_def InferObject_def split: option.splits)

section \<open>The claims\<close>

text \<open>
  C1, as amended. When a calibrator is supplied and the platform supports int8, a call
  that reaches the build makes exactly one synchronous compile. Built against
  TensorRT 6 or earlier (the \<^verbatim>\<open>#else\<close> branch), that compile comes after the int8 mode and
  the calibrator have been set on the builder (the calibrator is the last call before
  it), so the primary engine reflects int8. Built against TensorRT 7 or later
  (\<^verbatim>\<open>NV_TENSORRT_MAJOR > 6\<close>) and given a calibrator whose cache is empty, it comes
  before: neither the int8 flag nor the calibrator is attached when it runs, so the
  primary engine does not reflect the int8 flag; when it has succeeded, the flag and
  the calibrator are attached and the calibration build is scheduled with that
  configuration, and nothing else follows.
\<close>

theorem C1_primary_build_and_int8_order:
  assumes "ParseFromString e onnx_model = Some parsed_model"
    and "parse e onnx_model = Inr trt_network"
    and "platformHasFastInt8 e"
    and "onnxToTrtCtx e onnx_model fp16_mode max_batch_size max_workspace_size (Some c)
           verbosity debug_builder = (tr, res)"
  shows "length (filter is_build tr) = 1
         \<and> (\<not> NV_TENSORRT_MAJOR e > 6 \<longrightarrow>
               (\<exists>ev. primary_build tr = Some ev \<and> build_int8 ev)
               \<and> Call_setInt8Mode True \<in> set (takeWhile (\<lambda>ev. \<not> is_build ev) tr)
               \<and> last (takeWhile (\<lambda>ev. \<not> is_build ev) tr) = Call_setInt8Calibrator c)
         \<and> (NV_TENSORRT_MAJOR e > 6 \<and> isCacheEmpty c \<longrightarrow>
               (\<exists>ev. primary_build tr = Some ev \<and> \<not> build_int8 ev)
               \<and> Call_setFlag kINT8 \<notin> set (takeWhile (\<lambda>ev. \<not> is_build ev) tr)
               \<and> Call_setInt8Calibrator c \<notin> set (takeWhile (\<lambda>ev. \<not> is_build ev) tr)
               \<and> (\<forall>r. res = Inr r \<longrightarrow>
                     (\<exists>task cfg.
                        tl (dropWhile (\<lambda>ev. \<not> is_build ev) tr)
                          = [Call_setFlag kINT8, Call_setInt8Calibrator c, Call_async task]
                        \<and> future_int8_engine r = Some task
                        \<and> task_config task = Some cfg
                        \<and> kINT8 \<in> flags cfg \<and> cfg_int8Calibrator cfg = Some c)))"
  using assms
  by (auto simp: build_defs primary_build_def createBuilderConfig_def createInferBuilder_def
      split: option.splits sum.splits if_splits prod.splits)

theorem C1_primary_build_and_int8_order_witness:
  "(\<exists>tr r b. onnxToTrtCtx (accepting_env 6 True True) ''model'' False 1 1024
                (Some \<lparr>isCacheEmpty = False\<rparr>) kWARNING False = (tr, Inr r)
            \<and> primary_build tr = Some (Call_buildCudaEngine b (INetworkDefinition 0))
            \<and> int8Mode b
            \<and> last (takeWhile (\<lambda>ev. \<not> is_build ev) tr)
                = Call_setInt8Calibrator \<lparr>isCacheEmpty = False\<rparr>)
   \<and> (\<exists>tr r ev task. onnxToTrtCtx (accepting_env 8 True True) ''model'' False 1 1024
                (Some \<lparr>isCacheEmpty = True\<rparr>) kWARNING False = (tr, Inr r)
            \<and> primary_build tr = Some ev \<and> \<not> build_int8 ev
            \<and> Call_setFlag kINT8 \<notin> set (takeWhile (\<lambda>ev. \<not> is_build ev) tr)
            \<and> tl (dropWhile (\<lambda>ev. \<not> is_build ev) tr)
                = [Call_setFlag kINT8, Call_setInt8Calibrator \<lparr>isCacheEmpty = True\<rparr>,
                   Call_async task])"
proof -
  have pm: "ParseFromString (accepting_env major True True) ''model'' = Some example_model"
    and net: "parse (accepting_env major True True) ''model'' = Inr (INetworkDefinition 0)"
    and int8: "platformHasFastInt8 (accepting_env major True True)"
    and major: "NV_TENSORRT_MAJOR (accepting_env major True True) = major"
    for major
    by (simp_all add: accepting_env_def)
  obtain tr r where run: "onnxToTrtCtx (accepting_env 6 True True) ''model'' False 1 1024
      (Some \<lparr>isCacheEmpty = False\<rparr>) kWARNING False = (tr, Inr r)"
    using accepting_env_returns [of 6 True True "''model''" False 1 1024
        "Some \<lparr>isCacheEmpty = False\<rparr>" kWARNING False]
    by (metis prod.collapse)
  obtain tr' r' where run': "onnxToTrtCtx (accepting_env 8 True True) ''model'' False 1 1024
      (Some \<lparr>isCacheEmpty = True\<rparr>) kWARNING False = (tr', Inr r')"
    using accepting_env_returns [of 8 True True "''model''" False 1 1024
        "Some \<lparr>isCacheEmpty = True\<rparr>" kWARNING False]
    by (metis prod.collapse)
  have legacy: "\<exists>b. primary_build tr = Some (Call_buildCudaEngine b (INetworkDefinition 0))
                  \<and> int8Mode b"
    using C1_primary_build_and_int8_order [OF pm net int8 run] run
    by (auto simp: major build_defs primary_build_def accepting_env_def
        split: option.splits sum.splits if_splits prod.splits)
  from legacy C1_primary_build_and_int8_order [OF pm net int8 run]
    C1_primary_build_and_int8_order [OF pm net int8 run'] run run'
  show ?thesis
    by (simp add: major) blast
qed

text \<open>
  C1 as stated fails in the \<^verbatim>\<open>NV_TENSORRT_MAJOR > 6\<close> branch. Built against TensorRT 7, on
  an int8 platform and with a calibrator whose cache is empty, the primary compile
  receives a configuration without the int8 flag and without the calibrator; the flag
  and the calibrator are set only afterwards, for the calibration build.
\<close>

theorem C1_trt7_primary_build_without_int8:
  "onnxToTrtCtx (accepting_env 7 True True) ''model'' False 1 1024 (Some \<lparr>isCacheEmpty = True\<rparr>)
     kWARNING False
   = ([Call_ParseFromString, Call_parse, Call_setMaxBatchSize 1, Call_setMaxWorkspaceSize 1024,
       Call_buildEngineWithConfig
         \<lparr>maxBatchSize = 1, fp16Mode = False, int8Mode = False, debugSync = False,
          maxWorkspaceSize = 0, int8Calibrator = None\<rparr>
         (INetworkDefinition 0)
         \<lparr>flags = {}, cfg_maxWorkspaceSize = 1024, cfg_int8Calibrator = None\<rparr>,
       Call_setFlag kINT8,
       Call_setInt8Calibrator \<lparr>isCacheEmpty = True\<rparr>,
       Call_async
         \<lparr>task_builder =
            \<lparr>maxBatchSize = 1, fp16Mode = False, int8Mode = False, debugSync = False,
             maxWorkspaceSize = 0, int8Calibrator = None\<rparr>,
          task_network = INetworkDefinition 0,
          task_config =
            Some \<lparr>flags = {kINT8}, cfg_maxWorkspaceSize = 1024,
                  cfg_int8Calibrator = Some \<lparr>isCacheEmpty = True\<rparr>\<rparr>\<rparr>],
      Inr \<lparr>trt_engine = Some (ICudaEngine 1),
           trt_parser = IParser (TRT_Logger kWARNING),
           trt_logger = TRT_Logger kWARNING,
           future_int8_engine =
             Some \<lparr>task_builder =
                     \<lparr>maxBatchSize = 1, fp16Mode = False, int8Mode = False, debugSync = False,
                      maxWorkspaceSize = 0, int8Calibrator = None\<rparr>,
                   task_network = INetworkDefinition 0,
                   task_config =
                     Some \<lparr>flags = {kINT8}, cfg_maxWorkspaceSize = 1024,
                           cfg_int8Calibrator = Some \<lparr>isCacheEmpty = True\<rparr>\<rparr>\<rparr>\<rparr>)"
  by (simp add: build_defs accepting_env_def createBuilderConfig_def createInferBuilder_def)

text \<open>
  C2, as amended. For every list of error records whose node index is \<open>-1\<close> or an index
  of the parsed model's node sequence, the report loop does not fail and writes one
  diagnostic per record. The read of the first output name is guarded: the header of a
  node never fails, and for a node without outputs it is the header without an output
  name. The node index itself is guarded against \<open>-1\<close> only.
\<close>

theorem C2_report_loop_guards:
  assumes "\<forall>error \<in> set errors. err_node error = - 1
             \<or> (0 \<le> err_node error \<and> err_node error < int (length (node (graph parsed_model))))"
  shows "snd (report_errors verbosity parsed_model errors) = None
         \<and> length (fst (report_errors verbosity parsed_model errors)) = length errors
         \<and> (\<forall>i nd. \<exists>s. node_header i nd = Inr s)
         \<and> (\<forall>i nd. outputs nd = [] \<longrightarrow>
               node_header i nd
                 = Inr (''While parsing node number '' @ string_of_int i @ '' ['' @ op_type nd
                        @ '']:'' @ [CHR 0x0A]))"
  by (simp add: report_errors_eq [OF assms] node_header_eq)

theorem C2_report_loop_guards_witness:
  "report_errors kERROR example_model [example_error 0]
     = ([Cerr (''While parsing node number 0 [Foo]:'' @ [CHR 0x0A]
          @ ''ERROR: ModelImporter.cpp:124 In function importNode:'' @ [CHR 0x0A]
          @ ''[8] No importer registered for op: Foo'' @ [CHR 0x0A])], None)
   \<and> outputs (node (graph example_model) ! 0) = []
   \<and> node_header 0 (node (graph example_model) ! 0)
       = Inr (''While parsing node number 0 [Foo]:'' @ [CHR 0x0A])"
proof -
  have flat: "report_errors kERROR example_model [example_error 0]
               = (fst (report_errors kERROR example_model [example_error 0]), None)"
    using C2_report_loop_guards [of "[example_error 0]" example_model kERROR]
    by (simp add: example_defs prod_eq_iff)
  have written: "report_error kERROR example_model (example_error 0)
               = Inr (''While parsing node number 0 [Foo]:'' @ [CHR 0x0A]
          @ ''ERROR: ModelImporter.cpp:124 In function importNode:'' @ [CHR 0x0A]
          @ ''[8] No importer registered for op: Foo'' @ [CHR 0x0A])"
    by (simp add: report_error_def node_at_def example_defs node_header_def node_dump_def
        error_line_def string_of_int_def digit_def endl_def)
  show ?thesis
    using flat written
    by (simp add: example_defs node_header_def string_of_int_def digit_def endl_def)
qed

text \<open>
  C2 as stated fails: an error record whose node index lies outside the node sequence
  is read unchecked, and the loop fails on it. Here the model has one node and the
  record names node 1.
\<close>

theorem C2_node_index_unchecked:
  "report_errors kERROR example_model [example_error 1]
     = ([], Some (node_index_out_of_range 1))"
  by (simp add: report_error_def node_at_def example_defs)

text \<open>
  C3. When the independent protobuf deserialization of the buffer fails, the call fails
  with \<^verbatim>\<open>dmlc::Error("Could not parse ONNX from string")\<close> (MalformedModel), the only effect
  is the deserialization attempt: the backend parser is not invoked and no compile is
  made, whatever the backend parser \<open>backend\<close> would answer on these bytes.
\<close>

theorem C3_malformed_model_before_backend:
  assumes "ParseFromString e onnx_model = None"
  shows "onnxToTrtCtx (e\<lparr>parse := backend\<rparr>) onnx_model fp16_mode max_batch_size max_workspace_size
           calibrator verbosity debug_builder
         = ([Call_ParseFromString], Inl MalformedModel)
         \<and> MalformedModel = dmlc_Error ''Could not parse ONNX from string''"
  using assms by (simp add: onnxToTrtCtx_def MalformedModel_def)

theorem C3_malformed_model_before_backend_witness:
  "ParseFromString garbage_env ''not a model'' = None
   \<and> onnxToTrtCtx (garbage_env\<lparr>parse := (\<lambda>bytes. Inr (INetworkDefinition 0))\<rparr>) ''not a model''
         True 1 1024 (Some \<lparr>isCacheEmpty = True\<rparr>) kINFO False
       = ([Call_ParseFromString], Inl (dmlc_Error ''Could not parse ONNX from string''))"
  using C3_malformed_model_before_backend [of garbage_env "''not a model''"
      "\<lambda>bytes. Inr (INetworkDefinition 0)" True 1 1024 "Some \<lparr>isCacheEmpty = True\<rparr>" kINFO False]
  by (simp add: example_defs)

text \<open>
  C4. Whenever the build is reached and the primary compile yields an engine, the call
  returns that engine, and a background calibration build is scheduled if and only if
  a calibrator was supplied, the platform supports int8 (so the calibrator is still
  attached after the capability check) and the calibrator's cache is empty. What is
  scheduled is one closure holding the builder, the network and, in the
  \<^verbatim>\<open>NV_TENSORRT_MAJOR > 6\<close> branch, the configuration with the int8 flag and the
  calibrator; it is the returned future and the last effect of the call. Otherwise
  nothing is scheduled and the returned future is empty; in particular for every
  calibrator whose cache is not empty. In every case exactly one compile is made
  synchronously, the primary one.
\<close>

theorem C4_background_build_scheduling:
  fixes e :: env and calibrator :: "TRTInt8Calibrator option"
    and fp16_mode debug_builder :: bool
    and max_batch_size :: "32 word" and max_workspace_size :: "64 word"
    and trt_network :: INetworkDefinition
  defines "builder \<equiv> createInferBuilder\<lparr>maxBatchSize := max_batch_size\<rparr>"
    and "config \<equiv>
           \<lparr>flags = (if fp16_mode \<and> platformHasFastFp16 e then {kFP16} else {})
                      \<union> (if debug_builder then {kDEBUG} else {}),
            cfg_maxWorkspaceSize = max_workspace_size,
            cfg_int8Calibrator = None\<rparr>"
    and "attached \<equiv> calibrator \<noteq> None \<and> platformHasFastInt8 e"
  defines "builder6 \<equiv>
           createInferBuilder
             \<lparr>maxBatchSize := max_batch_size,
              fp16Mode := fp16_mode \<and> platformHasFastFp16 e,
              maxWorkspaceSize := max_workspace_size,
              debugSync := debug_builder,
              int8Mode := attached,
              int8Calibrator := (if attached then calibrator else None)\<rparr>"
  defines "task \<equiv>
           (if NV_TENSORRT_MAJOR e > 6
            then \<lparr>task_builder = builder, task_network = trt_network,
                  task_config = Some (config\<lparr>flags := insert kINT8 (flags config),
                                            cfg_int8Calibrator := calibrator\<rparr>)\<rparr>
            else \<lparr>task_builder = builder6, task_network = trt_network, task_config = None\<rparr>)"
    and "scheduled \<equiv> attached \<and> (\<exists>c. calibrator = Some c \<and> isCacheEmpty c)"
  assumes "ParseFromString e onnx_model = Some parsed_model"
    and "parse e onnx_model = Inr trt_network"
    and "(if NV_TENSORRT_MAJOR e > 6
          then buildEngineWithConfig e builder trt_network config
          else buildCudaEngine e builder6 trt_network) = Some engine"
    and "onnxToTrtCtx e onnx_model fp16_mode max_batch_size max_workspace_size calibrator
           verbosity debug_builder = (tr, res)"
  shows "res = Inr \<lparr>trt_engine = Some engine,
                    trt_parser = IParser (TRT_Logger verbosity),
                    trt_logger = TRT_Logger verbosity,
                    future_int8_engine = (if scheduled then Some task else None)\<rparr>
         \<and> filter is_async tr = (if scheduled then [Call_async task] else [])
         \<and> filter is_build tr
             = [if NV_TENSORRT_MAJOR e > 6
                then Call_buildEngineWithConfig builder trt_network config
                else Call_buildCudaEngine builder6 trt_network]
         \<and> (scheduled \<longrightarrow> last tr = Call_async task)
         \<and> (\<forall>c. calibrator = Some c \<and> \<not> isCacheEmpty c \<longrightarrow> \<not> scheduled)"
  using assms(7-)
  unfolding assms(1-6)
  by (cases "NV_TENSORRT_MAJOR e > 6"; cases calibrator; cases fp16_mode; cases debug_builder;
      cases "platformHasFastFp16 e"; cases "platformHasFastInt8 e")
    (auto simp: build_defs createBuilderConfig_def createInferBuilder_def)

theorem C4_background_build_scheduling_witness:
  "snd (onnxToTrtCtx (accepting_env 7 True True) ''model'' False 2 2048
          (Some \<lparr>isCacheEmpty = True\<rparr>) kWARNING False)
     = Inr \<lparr>trt_engine = Some (ICudaEngine 1),
            trt_parser = IParser (TRT_Logger kWARNING),
            trt_logger = TRT_Logger kWARNING,
            future_int8_engine =
              Some \<lparr>task_builder = createInferBuilder\<lparr>maxBatchSize := 2\<rparr>,
                    task_network = INetworkDefinition 0,
                    task_config =
                      Some \<lparr>flags = {kINT8}, cfg_maxWorkspaceSize = 2048,
                            cfg_int8Calibrator = Some \<lparr>isCacheEmpty = True\<rparr>\<rparr>\<rparr>\<rparr>
   \<and> filter is_async (fst (onnxToTrtCtx (accepting_env 7 True True) ''model'' False 2 2048
               (Some \<lparr>isCacheEmpty = True\<rparr>) kWARNING False))
       = [Call_async
            \<lparr>task_builder = createInferBuilder\<lparr>maxBatchSize := 2\<rparr>,
             task_network = INetworkDefinition 0,
             task_config =
               Some \<lparr>flags = {kINT8}, cfg_maxWorkspaceSize = 2048,
                     cfg_int8Calibrator = Some \<lparr>isCacheEmpty = True\<rparr>\<rparr>\<rparr>]
   \<and> snd (onnxToTrtCtx (accepting_env 6 True True) ''model'' False 2 2048
               (Some \<lparr>isCacheEmpty = False\<rparr>) kWARNING False)
       = Inr \<lparr>trt_engine = Some (ICudaEngine 1),
              trt_parser = IParser (TRT_Logger kWARNING),
              trt_logger = TRT_Logger kWARNING,
              future_int8_engine = None\<rparr>
   \<and> filter is_async (fst (onnxToTrtCtx (accepting_env 6 True True) ''model'' False 2 2048
               (Some \<lparr>isCacheEmpty = False\<rparr>) kWARNING False)) = []
   \<and> length (filter is_build (fst (onnxToTrtCtx (accepting_env 6 True True) ''model'' False 2 2048
               (Some \<lparr>isCacheEmpty = False\<rparr>) kWARNING False))) = 1"
  using C4_background_build_scheduling [where e = "accepting_env 7 True True" and onnx_model = "''model''"
        and fp16_mode = False and max_batch_size = 2 and max_workspace_size = 2048
        and calibrator = "Some \<lparr>isCacheEmpty = True\<rparr>" and verbosity = kWARNING
        and debug_builder = False and engine = "ICudaEngine 1",
        OF accepting_env_simps(1,2) _ surjective_pairing]
    C4_background_build_scheduling [where e = "accepting_env 6 True True" and onnx_model = "''model''"
        and fp16_mode = False and max_batch_size = 2 and max_workspace_size = 2048
        and calibrator = "Some \<lparr>isCacheEmpty = False\<rparr>" and verbosity = kWARNING
        and debug_builder = False and engine = "ICudaEngine 1",
        OF accepting_env_simps(1,2) _ surjective_pairing]
  by (simp add: accepting_env_simps prod_eq_iff)

text \<open>
  C5, as amended. When a calibrator is supplied, the platform does not support int8 and
  the capability check is reached (in the \<^verbatim>\<open>#else\<close> branch as soon as the build is
  reached; in the \<^verbatim>\<open>NV_TENSORRT_MAJOR > 6\<close> branch once the primary compile, which comes
  first there, has yielded an engine), the call emits the int8 warning once, calls
  \<^verbatim>\<open>setDone\<close> on the calibrator once, sets neither the int8 flag nor the int8 mode nor
  the calibrator, compiles once and without int8, schedules nothing, returns an empty
  future when it returns, and apart from the warning and \<^verbatim>\<open>setDone\<close> its effects and
  its outcome are those of the same call with no calibrator.
\<close>

theorem C5_int8_unsupported_as_no_calibrator:
  fixes e :: env and fp16_mode debug_builder :: bool
    and max_batch_size :: "32 word" and max_workspace_size :: "64 word"
  defines "builder \<equiv> createInferBuilder\<lparr>maxBatchSize := max_batch_size\<rparr>"
    and "config \<equiv>
           \<lparr>flags = (if fp16_mode \<and> platformHasFastFp16 e then {kFP16} else {})
                      \<union> (if debug_builder then {kDEBUG} else {}),
            cfg_maxWorkspaceSize = max_workspace_size,
            cfg_int8Calibrator = None\<rparr>"
  assumes "ParseFromString e onnx_model = Some parsed_model"
    and "parse e onnx_model = Inr trt_network"
    and "\<not> platformHasFastInt8 e"
    and "NV_TENSORRT_MAJOR e > 6 \<Longrightarrow> buildEngineWithConfig e builder trt_network config \<noteq> None"
    and "onnxToTrtCtx e onnx_model fp16_mode max_batch_size max_workspace_size (Some c)
           verbosity debug_builder = (tr, res)"
  shows "count_list tr (Log_WARNING int8_warning) = 1
         \<and> count_list tr Call_setDone = 1
         \<and> Call_setFlag kINT8 \<notin> set tr \<and> Call_setInt8Mode True \<notin> set tr
         \<and> Call_setInt8Calibrator c \<notin> set tr
         \<and> filter build_int8 tr = []
         \<and> length (filter is_build tr) = 1
         \<and> filter is_async tr = []
         \<and> (\<forall>r. res = Inr r \<longrightarrow> future_int8_engine r = None)
         \<and> onnxToTrtCtx e onnx_model fp16_mode max_batch_size max_workspace_size None
               verbosity debug_builder
             = (filter (\<lambda>ev. ev \<noteq> Log_WARNING int8_warning \<and> ev \<noteq> Call_setDone) tr, res)"
  using assms(3-) warnings_differ
  unfolding assms(1,2)
  by (cases "NV_TENSORRT_MAJOR e > 6"; cases fp16_mode; cases debug_builder;
      cases "platformHasFastFp16 e")
    (auto simp: build_defs createBuilderConfig_def createInferBuilder_def
      split: option.splits)

theorem C5_int8_unsupported_as_no_calibrator_witness:
  "(\<exists>tr r. onnxToTrtCtx (accepting_env 7 True False) ''model'' False 2 2048
              (Some \<lparr>isCacheEmpty = True\<rparr>) kWARNING False = (tr, Inr r)
          \<and> count_list tr (Log_WARNING int8_warning) = 1
          \<and> count_list tr Call_setDone = 1
          \<and> Call_setFlag kINT8 \<notin> set tr
          \<and> filter is_async tr = []
          \<and> future_int8_engine r = None
          \<and> onnxToTrtCtx (accepting_env 7 True False) ''model'' False 2 2048 None kWARNING False
              = (filter (\<lambda>ev. ev \<noteq> Log_WARNING int8_warning \<and> ev \<noteq> Call_setDone) tr, Inr r))
   \<and> (\<exists>tr. onnxToTrtCtx (failing_compile_env 6 True False) ''model'' False 2 2048
              (Some \<lparr>isCacheEmpty = True\<rparr>) kWARNING False = (tr, Inl EngineBuildFailed)
          \<and> count_list tr (Log_WARNING int8_warning) = 1
          \<and> count_list tr Call_setDone = 1
          \<and> length (filter is_build tr) = 1)"
proof -
  obtain tr r where run: "onnxToTrtCtx (accepting_env 7 True False) ''model'' False 2 2048
              (Some \<lparr>isCacheEmpty = True\<rparr>) kWARNING False = (tr, Inr r)"
    using accepting_env_returns [of 7 True False "''model''" False 2 2048
        "Some \<lparr>isCacheEmpty = True\<rparr>" kWARNING False]
    by (metis prod.collapse)
  obtain tr' where run': "onnxToTrtCtx (failing_compile_env 6 True False) ''model'' False 2 2048
              (Some \<lparr>isCacheEmpty = True\<rparr>) kWARNING False = (tr', Inl EngineBuildFailed)"
    by (simp add: build_defs failing_env_simps)
  have first: "count_list tr (Log_WARNING int8_warning) = 1
          \<and> count_list tr Call_setDone = 1
          \<and> Call_setFlag kINT8 \<notin> set tr
          \<and> filter is_async tr = []
          \<and> future_int8_engine r = None
          \<and> onnxToTrtCtx (accepting_env 7 True False) ''model'' False 2 2048 None kWARNING False
              = (filter (\<lambda>ev. ev \<noteq> Log_WARNING int8_warning \<and> ev \<noteq> Call_setDone) tr, Inr r)"
    using C5_int8_unsupported_as_no_calibrator [OF accepting_env_simps(1,2) _ _ run]
    by (simp add: accepting_env_simps)
  have second: "count_list tr' (Log_WARNING int8_warning) = 1
          \<and> count_list tr' Call_setDone = 1
          \<and> length (filter is_build tr') = 1"
    using C5_int8_unsupported_as_no_calibrator [OF failing_env_simps(1,2) _ _ run']
    by (simp add: failing_env_simps)
  from run run' first second show ?thesis by blast
qed

text \<open>
  C5 as stated fails in the \<^verbatim>\<open>NV_TENSORRT_MAJOR > 6\<close> branch when the primary compile
  fails: the call ends at line 138, before the capability check of lines 140 to 149,
  so there is no warning and \<^verbatim>\<open>setDone\<close> is not called, although a calibrator is
  supplied and the platform does not support int8.
\<close>

theorem C5_trt7_failed_compile_skips_setDone:
  "onnxToTrtCtx (failing_compile_env 7 True False) ''model'' False 1 1024
       (Some \<lparr>isCacheEmpty = True\<rparr>) kWARNING False
     = ([Call_ParseFromString, Call_parse, Call_setMaxBatchSize 1, Call_setMaxWorkspaceSize 1024,
         Call_buildEngineWithConfig
           \<lparr>maxBatchSize = 1, fp16Mode = False, int8Mode = False, debugSync = False,
            maxWorkspaceSize = 0, int8Calibrator = None\<rparr>
           (INetworkDefinition 0)
           \<lparr>flags = {}, cfg_maxWorkspaceSize = 1024, cfg_int8Calibrator = None\<rparr>],
        Inl EngineBuildFailed)
   \<and> \<not> platformHasFastInt8 (failing_compile_env 7 True False)"
  by (simp add: build_defs failing_compile_env_def accepting_env_def createBuilderConfig_def
      createInferBuilder_def)

text \<open>
  C6, as amended. On every call that reaches the build with \<open>fp16_mode\<close> set, the
  warnings emitted are: the fp16 warning, exactly once, when the platform has no fast
  fp16 and not at all when it has; followed by the int8 warning when a calibrator is
  supplied, the platform does not support int8 and the capability check is reached.
  When the platform has no fast fp16, the fp16 flag (or mode) is not set, the compile
  is nonetheless invoked, once and without fp16, a returned primary engine handle is
  non-null, and the call does return when the backend compiles the network. When the
  platform has fast fp16, the flag or mode is set and the compile has fp16 enabled.
\<close>

theorem C6_fp16_capability_fallback:
  assumes "ParseFromString e onnx_model = Some parsed_model"
    and "parse e onnx_model = Inr trt_network"
    and "onnxToTrtCtx e onnx_model True max_batch_size max_workspace_size calibrator
           verbosity debug_builder = (tr, res)"
  shows "warnings_of tr
           = (if platformHasFastFp16 e then [] else [fp16_warning])
             @ (if calibrator \<noteq> None \<and> \<not> platformHasFastInt8 e
                   \<and> (NV_TENSORRT_MAJOR e > 6 \<longrightarrow> (\<exists>r. res = Inr r))
                then [int8_warning] else [])
         \<and> (\<not> platformHasFastFp16 e \<longrightarrow>
            count_list tr (Log_WARNING fp16_warning) = 1
            \<and> Call_setFlag kFP16 \<notin> set tr \<and> Call_setFp16Mode True \<notin> set tr
            \<and> filter build_fp16 tr = []
            \<and> length (filter is_build tr) = 1
            \<and> (\<forall>r. res = Inr r \<longrightarrow> trt_engine r \<noteq> None)
            \<and> ((\<forall>b c. buildEngineWithConfig e b trt_network c \<noteq> None)
                 \<and> (\<forall>b. buildCudaEngine e b trt_network \<noteq> None) \<longrightarrow> (\<exists>r. res = Inr r)))
         \<and> (platformHasFastFp16 e \<longrightarrow>
            count_list tr (Log_WARNING fp16_warning) = 0
            \<and> (Call_setFlag kFP16 \<in> set tr \<or> Call_setFp16Mode True \<in> set tr)
            \<and> length (filter build_fp16 tr) = 1)"
proof -
  have warnings: "warnings_of tr
           = (if platformHasFastFp16 e then [] else [fp16_warning])
             @ (if calibrator \<noteq> None \<and> \<not> platformHasFastInt8 e
                   \<and> (NV_TENSORRT_MAJOR e > 6 \<longrightarrow> (\<exists>r. res = Inr r))
                then [int8_warning] else [])"
    using assms
    by (auto simp: build_defs split: option.splits sum.splits if_splits prod.splits)
  have effects: "(\<not> platformHasFastFp16 e \<longrightarrow>
            count_list tr (Log_WARNING fp16_warning) = 1
            \<and> Call_setFlag kFP16 \<notin> set tr \<and> Call_setFp16Mode True \<notin> set tr
            \<and> filter build_fp16 tr = []
            \<and> length (filter is_build tr) = 1
            \<and> (\<forall>r. res = Inr r \<longrightarrow> trt_engine r \<noteq> None))
         \<and> (platformHasFastFp16 e \<longrightarrow>
            count_list tr (Log_WARNING fp16_warning) = 0
            \<and> (Call_setFlag kFP16 \<in> set tr \<or> Call_setFp16Mode True \<in> set tr)
            \<and> length (filter build_fp16 tr) = 1)"
    using assms warnings_differ
    by (auto simp: build_defs createBuilderConfig_def createInferBuilder_def
        split: option.splits sum.splits if_splits prod.splits)
  have returns: "\<exists>r. res = Inr r"
    if "\<forall>b c. buildEngineWithConfig e b trt_network c \<noteq> None"
      and "\<forall>b. buildCudaEngine e b trt_network \<noteq> None"
    using onnxToTrtCtx_returns [OF assms(1,2), of fp16_mode max_batch_size max_workspace_size
        calibrator verbosity debug_builder for fp16_mode] that assms(3)
    by (metis snd_conv)
  from warnings effects returns show ?thesis by blast
qed

theorem C6_fp16_capability_fallback_witness:
  "(\<exists>tr r. onnxToTrtCtx (accepting_env 7 False True) ''model'' True 2 2048 None kWARNING False
              = (tr, Inr r)
          \<and> warnings_of tr = [fp16_warning]
          \<and> Call_setFlag kFP16 \<notin> set tr
          \<and> filter build_fp16 tr = []
          \<and> length (filter is_build tr) = 1
          \<and> trt_engine r \<noteq> None)
   \<and> (\<exists>tr r. onnxToTrtCtx (accepting_env 6 False False) ''model'' True 2 2048
                (Some \<lparr>isCacheEmpty = False\<rparr>) kWARNING False = (tr, Inr r)
          \<and> warnings_of tr = [fp16_warning, int8_warning]
          \<and> count_list tr (Log_WARNING fp16_warning) = 1)
   \<and> (\<exists>tr r. onnxToTrtCtx (accepting_env 7 True True) ''model'' True 2 2048 None kWARNING False
              = (tr, Inr r)
          \<and> warnings_of tr = []
          \<and> length (filter build_fp16 tr) = 1)"
proof -
  obtain tr r where run: "onnxToTrtCtx (accepting_env 7 False True) ''model'' True 2 2048 None
      kWARNING False = (tr, Inr r)"
    using accepting_env_returns [of 7 False True "''model''" True 2 2048 None kWARNING False]
    by (metis prod.collapse)
  obtain tr' r' where run': "onnxToTrtCtx (accepting_env 7 True True) ''model'' True 2 2048 None
      kWARNING False = (tr', Inr r')"
    using accepting_env_returns [of 7 True True "''model''" True 2 2048 None kWARNING False]
    by (metis prod.collapse)
  obtain tr2 r2 where run2: "onnxToTrtCtx (accepting_env 6 False False) ''model'' True 2 2048
      (Some \<lparr>isCacheEmpty = False\<rparr>) kWARNING False = (tr2, Inr r2)"
    using accepting_env_returns [of 6 False False "''model''" True 2 2048
        "Some \<lparr>isCacheEmpty = False\<rparr>" kWARNING False]
    by (metis prod.collapse)
  from C6_fp16_capability_fallback [OF accepting_env_simps(1,2) run] C6_fp16_capability_fallback [OF accepting_env_simps(1,2) run']
    C6_fp16_capability_fallback [OF accepting_env_simps(1,2) run2] run run' run2
  show ?thesis
    by (simp add: accepting_env_simps)
qed

text \<open>
  C6 as stated fails when a calibrator is supplied and the platform supports neither
  fp16 nor int8: the call emits two warnings, not exactly one.
\<close>

theorem C6_two_warnings:
  "onnxToTrtCtx (accepting_env 7 False False) ''model'' True 1 1024
       (Some \<lparr>isCacheEmpty = True\<rparr>) kWARNING False
     = ([Call_ParseFromString, Call_parse, Call_setMaxBatchSize 1,
         Log_WARNING ''TensorRT can't use fp16 on this platform'',
         Call_setMaxWorkspaceSize 1024,
         Call_buildEngineWithConfig
           \<lparr>maxBatchSize = 1, fp16Mode = False, int8Mode = False, debugSync = False,
            maxWorkspaceSize = 0, int8Calibrator = None\<rparr>
           (INetworkDefinition 0)
           \<lparr>flags = {}, cfg_maxWorkspaceSize = 1024, cfg_int8Calibrator = None\<rparr>,
         Log_WARNING ''TensorRT can't use int8 on this platform'',
         Call_setDone],
        Inr \<lparr>trt_engine = Some (ICudaEngine 1),
             trt_parser = IParser (TRT_Logger kWARNING),
             trt_logger = TRT_Logger kWARNING,
             future_int8_engine = None\<rparr>)"
  by (simp add: build_defs accepting_env_simps createBuilderConfig_def createInferBuilder_def
      fp16_warning_def int8_warning_def)

text \<open>
  C7, as amended. When the buffer deserializes, the backend parser rejects it, and every
  error record carries node index \<open>-1\<close> or an index of the parsed model's node
  sequence, the call writes one diagnostic per record of the backend's list, in order,
  each as the specification describes it (\<open>spec_diagnostic\<close>), and then fails with
  \<^verbatim>\<open>dmlc::Error("Cannot parse ONNX into TensorRT Engine")\<close> (GraphCompileError). Its only
  other effects are the two parse calls: no compile is made.
\<close>

theorem C7_backend_rejection_diagnostics:
  assumes "ParseFromString e onnx_model = Some parsed_model"
    and "parse e onnx_model = Inl errors"
    and "\<forall>error \<in> set errors. err_node error = - 1
           \<or> (0 \<le> err_node error \<and> err_node error < int (length (node (graph parsed_model))))"
  shows "onnxToTrtCtx e onnx_model fp16_mode max_batch_size max_workspace_size calibrator
           verbosity debug_builder
         = ([Call_ParseFromString, Call_parse]
              @ map (\<lambda>error. Cerr (spec_diagnostic verbosity parsed_model error)) errors,
            Inl GraphCompileError)
       \<and> GraphCompileError = dmlc_Error ''Cannot parse ONNX into TensorRT Engine''"
  using assms(1,2) report_errors_eq [OF assms(3)]
  by (simp add: onnxToTrtCtx_def GraphCompileError_def)

theorem C7_backend_rejection_diagnostics_witness:
  "onnxToTrtCtx (rejecting_env [example_error 0, example_error (- 1)]) ''model'' False 1 1024 None
       kINFO False
     = ([Call_ParseFromString, Call_parse,
         Cerr (''While parsing node number 0 [Foo]:'' @ [CHR 0x0A]
               @ ''--- Begin node ---'' @ [CHR 0x0A] @ ''op_type: Foo'' @ [CHR 0x0A]
               @ ''--- End node ---'' @ [CHR 0x0A]
               @ ''ERROR: ModelImporter.cpp:124 In function importNode:'' @ [CHR 0x0A]
               @ ''[8] No importer registered for op: Foo'' @ [CHR 0x0A]),
         Cerr (''ERROR: ModelImporter.cpp:124 In function importNode:'' @ [CHR 0x0A]
               @ ''[8] No importer registered for op: Foo'' @ [CHR 0x0A])],
        Inl (dmlc_Error ''Cannot parse ONNX into TensorRT Engine''))"
  using C7_backend_rejection_diagnostics [of "rejecting_env [example_error 0, example_error (- 1)]" "''model''" example_model
      "[example_error 0, example_error (- 1)]" False 1 1024 None kINFO False]
  by (simp add: example_defs spec_diagnostic_def GraphCompileError_def string_of_int_def digit_def)

text \<open>
  C7 as stated fails on a rejected input with an error record whose node index lies
  outside the node sequence: the second record here names node 1 of a model of one
  node, the read is unchecked, only the first diagnostic is written and the call does
  not end with GraphCompileError.
\<close>

theorem C7_rejection_with_stray_index:
  "onnxToTrtCtx (rejecting_env [example_error (- 1), example_error 1]) ''model'' False 1 1024 None
       kWARNING False
     = ([Call_ParseFromString, Call_parse,
         Cerr (''ERROR: ModelImporter.cpp:124 In function importNode:'' @ [CHR 0x0A]
               @ ''[8] No importer registered for op: Foo'' @ [CHR 0x0A])],
        Inl (node_index_out_of_range 1))
   \<and> node_index_out_of_range 1 \<noteq> GraphCompileError"
  by (simp add: onnxToTrtCtx_def report_error_def node_at_def example_defs error_line_def
      string_of_int_def digit_def endl_def GraphCompileError_def)

text \<open>
  C8. When the buffer deserializes, the backend accepts it and the compile step yields
  an engine, a call with \<open>fp16_mode\<close> false and no calibrator returns that engine
  (a non-null handle) and an empty future. Before the compile it sets the batch size
  from \<open>max_batch_size\<close>, the workspace size from \<open>max_workspace_size\<close>, and the debug
  flag exactly when \<open>debug_builder\<close> is set (TensorRT 6: \<^verbatim>\<open>setDebugSync(debug_builder)\<close>);
  the compile receives exactly these settings, and nothing else happens.
\<close>

theorem C8_plain_build_returns_engine:
  assumes "ParseFromString e onnx_model = Some parsed_model"
    and "parse e onnx_model = Inr trt_network"
    and "(if NV_TENSORRT_MAJOR e > 6
          then buildEngineWithConfig e
                 (createInferBuilder\<lparr>maxBatchSize := max_batch_size\<rparr>)
                 trt_network
                 \<lparr>flags = (if debug_builder then {kDEBUG} else {}),
                  cfg_maxWorkspaceSize = max_workspace_size,
                  cfg_int8Calibrator = None\<rparr>
          else buildCudaEngine e
                 (createInferBuilder\<lparr>maxBatchSize := max_batch_size,
                    maxWorkspaceSize := max_workspace_size,
                    debugSync := debug_builder\<rparr>)
                 trt_network) = Some engine"
  shows "onnxToTrtCtx e onnx_model False max_batch_size max_workspace_size None
             verbosity debug_builder
           = ([Call_ParseFromString, Call_parse, Call_setMaxBatchSize max_batch_size]
              @ (if NV_TENSORRT_MAJOR e > 6
                 then [Call_setMaxWorkspaceSize max_workspace_size]
                      @ (if debug_builder then [Call_setFlag kDEBUG] else [])
                      @ [Call_buildEngineWithConfig
                           (createInferBuilder\<lparr>maxBatchSize := max_batch_size\<rparr>)
                           trt_network
                           \<lparr>flags = (if debug_builder then {kDEBUG} else {}),
                            cfg_maxWorkspaceSize = max_workspace_size,
                            cfg_int8Calibrator = None\<rparr>]
                 else [Call_setMaxWorkspaceSize max_workspace_size,
                       Call_setDebugSync debug_builder,
                       Call_buildCudaEngine
                         (createInferBuilder\<lparr>maxBatchSize := max_batch_size,
                            maxWorkspaceSize := max_workspace_size,
                            debugSync := debug_builder\<rparr>)
                         trt_network]),
              Inr \<lparr>trt_engine = Some engine,
                   trt_parser = IParser (TRT_Logger verbosity),
                   trt_logger = TRT_Logger verbosity,
                   future_int8_engine = None\<rparr>)"
  using assms
  by (cases "NV_TENSORRT_MAJOR e > 6"; cases debug_builder)
    (simp_all add: build_defs createBuilderConfig_def createInferBuilder_def)

theorem C8_plain_build_returns_engine_witness:
  "onnxToTrtCtx (accepting_env 7 False False) ''model'' False 4 4096 None kWARNING True
     = ([Call_ParseFromString, Call_parse, Call_setMaxBatchSize 4, Call_setMaxWorkspaceSize 4096,
         Call_setFlag kDEBUG,
         Call_buildEngineWithConfig (createInferBuilder\<lparr>maxBatchSize := 4\<rparr>) (INetworkDefinition 0)
           \<lparr>flags = {kDEBUG}, cfg_maxWorkspaceSize = 4096, cfg_int8Calibrator = None\<rparr>],
        Inr \<lparr>trt_engine = Some (ICudaEngine 1), trt_parser = IParser (TRT_Logger kWARNING),
             trt_logger = TRT_Logger kWARNING, future_int8_engine = None\<rparr>)"
  using C8_plain_build_returns_engine [of "accepting_env 7 False False" "''model''" example_model "INetworkDefinition 0" 4
      True 4096 "ICudaEngine 1" kWARNING]
  by (simp add: example_defs)


text \<open>
  C10. When the backend rejects the buffer, an error record whose node index is \<open>-1\<close>,
  standing anywhere in the backend's list after records the loop gets past, makes the
  call write exactly the ERROR line with the record's file, line, function, numeric
  code and description, at every verbosity: no header naming a node and no node dump.
  The effects of the call are the two parse calls, the diagnostics of the records
  before it, this line, and what the loop writes for the records after it.
\<close>

theorem C10_unknown_node_error_line_only:
  assumes "ParseFromString e onnx_model = Some parsed_model"
    and "parse e onnx_model = Inl (pre @ error # rest)"
    and "\<forall>x \<in> set pre. err_node x = - 1
           \<or> (0 \<le> err_node x \<and> err_node x < int (length (node (graph parsed_model))))"
    and "err_node error = - 1"
  shows "fst (onnxToTrtCtx e onnx_model fp16_mode max_batch_size max_workspace_size calibrator
                verbosity debug_builder)
         = [Call_ParseFromString, Call_parse]
             @ map (\<lambda>x. Cerr (spec_diagnostic verbosity parsed_model x)) pre
             @ [Cerr (''ERROR: '' @ err_file error @ '':'' @ string_of_int (err_line error)
                      @ '' In function '' @ err_func error @ '':'' @ [CHR 0x0A]
                      @ ''['' @ string_of_int (err_code error) @ ''] '' @ err_desc error
                      @ [CHR 0x0A])]
             @ fst (report_errors verbosity parsed_model rest)
       \<and> report_error verbosity parsed_model error
           = Inr (''ERROR: '' @ err_file error @ '':'' @ string_of_int (err_line error)
                  @ '' In function '' @ err_func error @ '':'' @ [CHR 0x0A]
                  @ ''['' @ string_of_int (err_code error) @ ''] '' @ err_desc error
                  @ [CHR 0x0A])"
proof -
  have line: "report_error verbosity parsed_model error
           = Inr (''ERROR: '' @ err_file error @ '':'' @ string_of_int (err_line error)
                  @ '' In function '' @ err_func error @ '':'' @ [CHR 0x0A]
                  @ ''['' @ string_of_int (err_code error) @ ''] '' @ err_desc error
                  @ [CHR 0x0A])"
    using assms(4) by (simp add: report_error_def error_line_def endl_def)
  show ?thesis
    using assms(1,2) line
    by (simp add: onnxToTrtCtx_def report_errors_append [OF assms(3)] split: prod.splits)
qed

theorem C10_unknown_node_error_line_only_witness:
  "onnxToTrtCtx (rejecting_env [example_error 0, example_error (- 1)]) ''model'' False 1 1024 None
       kVERBOSE False
     = ([Call_ParseFromString, Call_parse,
         Cerr (''While parsing node number 0 [Foo]:'' @ [CHR 0x0A]
               @ ''--- Begin node ---'' @ [CHR 0x0A] @ ''op_type: Foo'' @ [CHR 0x0A]
               @ ''--- End node ---'' @ [CHR 0x0A]
               @ ''ERROR: ModelImporter.cpp:124 In function importNode:'' @ [CHR 0x0A]
               @ ''[8] No importer registered for op: Foo'' @ [CHR 0x0A]),
         Cerr (''ERROR: ModelImporter.cpp:124 In function importNode:'' @ [CHR 0x0A]
               @ ''[8] No importer registered for op: Foo'' @ [CHR 0x0A])],
        Inl (dmlc_Error ''Cannot parse ONNX into TensorRT Engine''))"
proof -
  have trace: "fst (onnxToTrtCtx (rejecting_env [example_error 0, example_error (- 1)]) ''model''
                    False 1 1024 None kVERBOSE False)
     = [Call_ParseFromString, Call_parse,
         Cerr (''While parsing node number 0 [Foo]:'' @ [CHR 0x0A]
               @ ''--- Begin node ---'' @ [CHR 0x0A] @ ''op_type: Foo'' @ [CHR 0x0A]
               @ ''--- End node ---'' @ [CHR 0x0A]
               @ ''ERROR: ModelImporter.cpp:124 In function importNode:'' @ [CHR 0x0A]
               @ ''[8] No importer registered for op: Foo'' @ [CHR 0x0A]),
         Cerr (''ERROR: ModelImporter.cpp:124 In function importNode:'' @ [CHR 0x0A]
               @ ''[8] No importer registered for op: Foo'' @ [CHR 0x0A])]"
    using C10_unknown_node_error_line_only [of "rejecting_env [example_error 0, example_error (- 1)]" "''model''"
        example_model "[example_error 0]" "example_error (- 1)" "[]" False 1 1024 None kVERBOSE False]
    by (simp add: example_defs spec_diagnostic_def string_of_int_def digit_def)
  have outcome: "snd (onnxToTrtCtx (rejecting_env [example_error 0, example_error (- 1)]) ''model''
                    False 1 1024 None kVERBOSE False)
     = Inl (dmlc_Error ''Cannot parse ONNX into TensorRT Engine'')"
    by (simp add: onnxToTrtCtx_def example_defs report_error_def node_at_def node_header_def
        split: prod.splits)
  from trace outcome show ?thesis by (simp add: prod_eq_iff)
qed

end
